theory Spec2Isabelle
  imports Main "HOL-Library.Sublist" "HOL-Library.Char_ord" "HOL-Library.List_Lexorder"
    "HOL-Library.AList"
begin

section \<open>Python strings\<close>

text \<open>
  A Python \<^verbatim>\<open>str\<close> is a sequence of code points. It is modelled as a HOL
  \<^typ>\<open>string\<close> in which every \<^typ>\<open>char\<close> stands for the code point of the same
  number, so the strings of the model are the Python strings over U+0000 .. U+00FF.
  \<^const>\<open>length\<close> therefore counts code points, as Python's \<^verbatim>\<open>len\<close> does, and
  not encoded bytes.
\<close>

definition cp :: "char \<Rightarrow> nat" where
  "cp c = of_char c"

text \<open>\<^verbatim>\<open>str.isspace\<close> on one code point; the same set is what \<^verbatim>\<open>\s\<close> matches
  in a \<^verbatim>\<open>str\<close> pattern.\<close>

definition isspace :: "char \<Rightarrow> bool" where
  "isspace c = (let n = cp c in
     (9 \<le> n \<and> n \<le> 13) \<or> (28 \<le> n \<and> n \<le> 32) \<or> n = 133 \<or> n = 160)"

text \<open>\<^verbatim>\<open>str.isalnum\<close> or underscore: what \<^verbatim>\<open>\w\<close> matches in a \<^verbatim>\<open>str\<close> pattern.\<close>

definition isword :: "char \<Rightarrow> bool" where
  "isword c = (let n = cp c in
     (48 \<le> n \<and> n \<le> 57) \<or> (65 \<le> n \<and> n \<le> 90) \<or> n = 95 \<or> (97 \<le> n \<and> n \<le> 122)
     \<or> n = 170 \<or> n = 178 \<or> n = 179 \<or> n = 181 \<or> n = 185 \<or> n = 186
     \<or> (188 \<le> n \<and> n \<le> 190) \<or> (192 \<le> n \<and> n \<le> 214) \<or> (216 \<le> n \<and> n \<le> 246)
     \<or> 248 \<le> n)"

text \<open>\<^verbatim>\<open>str.lower\<close>: the upper-case letters below U+0100 are A-Z and U+00C0 .. U+00DE
  without the multiplication sign U+00D7; each maps to the code point 32 above it.\<close>

definition lower_char :: "char \<Rightarrow> char" where
  "lower_char c = (let n = cp c in
     if (65 \<le> n \<and> n \<le> 90) \<or> (192 \<le> n \<and> n \<le> 222 \<and> n \<noteq> 215)
     then char_of (n + 32) else c)"

definition lower :: "string \<Rightarrow> string" where
  "lower s = map lower_char s"

definition lstrip :: "string \<Rightarrow> string" where
  "lstrip s = dropWhile isspace s"

definition rstrip :: "string \<Rightarrow> string" where
  "rstrip s = rev (dropWhile isspace (rev s))"

definition strip :: "string \<Rightarrow> string" where
  "strip s = rstrip (lstrip s)"

text \<open>\<^verbatim>\<open>s.strip(chars)\<close> with an explicit set of characters.\<close>

definition strip_chars :: "string \<Rightarrow> string \<Rightarrow> string" where
  "strip_chars chars s =
     rev (dropWhile (\<lambda>c. c \<in> set chars) (rev (dropWhile (\<lambda>c. c \<in> set chars) s)))"

text \<open>\<^verbatim>\<open>sep.join(xs)\<close>.\<close>

fun join :: "string \<Rightarrow> string list \<Rightarrow> string" where
  "join sep [] = []"
| "join sep [x] = x"
| "join sep (x # y # ys) = x @ sep @ join sep (y # ys)"

text \<open>\<^verbatim>\<open>str(n)\<close> for a natural number and for an integer.\<close>

definition digit :: "nat \<Rightarrow> char" where
  "digit d = ''0123456789'' ! d"

fun str_nat :: "nat \<Rightarrow> string" where
  "str_nat n = (if n < 10 then [digit n] else str_nat (n div 10) @ [digit (n mod 10)])"

declare str_nat.simps [simp del]

definition str_int :: "int \<Rightarrow> string" where
  "str_int i = (if i < 0 then CHR ''-'' # str_nat (nat (- i)) else str_nat (nat i))"

text \<open>
  \<^verbatim>\<open>s.count(old)\<close>: the number of non-overlapping occurrences, scanning from the left;
  the empty pattern occurs between all characters and at both ends.
\<close>

function count_from :: "string \<Rightarrow> string \<Rightarrow> nat" where
  "count_from old [] = 0"
| "count_from old (c # cs) =
     (if old \<noteq> [] \<and> prefix old (c # cs)
      then Suc (count_from old (drop (length old) (c # cs)))
      else count_from old cs)"
  by pat_completeness auto
termination
  by (relation "measure (\<lambda>(old, s). length s)") auto

definition count :: "string \<Rightarrow> string \<Rightarrow> nat" where
  "count s old = (if old = [] then length s + 1 else count_from old s)"

text \<open>
  \<^verbatim>\<open>s.replace(old, new, n)\<close>: the first \<open>n\<close> non-overlapping occurrences are replaced,
  all of them when \<open>n\<close> is negative (the default is -1).
\<close>

function replace_from :: "string \<Rightarrow> string \<Rightarrow> int \<Rightarrow> string \<Rightarrow> string" where
  "replace_from old new n [] = []"
| "replace_from old new n (c # cs) =
     (if n \<noteq> 0 \<and> old \<noteq> [] \<and> prefix old (c # cs)
      then new @ replace_from old new (n - 1) (drop (length old) (c # cs))
      else c # replace_from old new n cs)"
  by pat_completeness auto
termination
  by (relation "measure (\<lambda>(old, new, n, s). length s)") auto

fun interleave :: "string \<Rightarrow> int \<Rightarrow> string \<Rightarrow> string" where
  "interleave new n [] = (if n \<noteq> 0 then new else [])"
| "interleave new n (c # cs) =
     (if n \<noteq> 0 then new @ c # interleave new (n - 1) cs else c # cs)"

definition replace :: "string \<Rightarrow> string \<Rightarrow> string \<Rightarrow> int \<Rightarrow> string" where
  "replace s old new n = (if old = [] then interleave new n s else replace_from old new n s)"

section \<open>Regular expressions\<close>

text \<open>
  The fragment of Python's \<^verbatim>\<open>re\<close> syntax that the deny patterns use. \<open>WordB\<close> is
  \<^verbatim>\<open>\b\<close>, \<open>Space\<close> is \<^verbatim>\<open>\s\<close>, \<open>Dot\<close> is \<^verbatim>\<open>.\<close> (any character but a newline),
  \<open>OneOf\<close> is a character class.
\<close>

datatype rx =
    Lit char
  | OneOf string
  | Space
  | Dot
  | WordB
  | Eps
  | Seq rx rx
  | Alt rx rx
  | Star rx

text \<open>A literal string, \<^verbatim>\<open>r+\<close>, \<^verbatim>\<open>r{1,2}\<close>, and a sequence of several parts.\<close>

fun Str :: "string \<Rightarrow> rx" where
  "Str [] = Eps"
| "Str (c # cs) = Seq (Lit c) (Str cs)"

definition Plus :: "rx \<Rightarrow> rx" where
  "Plus r = Seq r (Star r)"

definition Rep12 :: "rx \<Rightarrow> rx" where
  "Rep12 r = Seq r (Alt r Eps)"

fun Seqs :: "rx list \<Rightarrow> rx" where
  "Seqs [] = Eps"
| "Seqs (r # rs) = Seq r (Seqs rs)"

text \<open>\<^verbatim>\<open>\b\<close> holds at position \<open>i\<close> when exactly one of the characters before and
  after it is a word character; beyond either end of the string there is none.\<close>

definition word_boundary :: "string \<Rightarrow> nat \<Rightarrow> bool" where
  "word_boundary s i =
     ((0 < i \<and> i \<le> length s \<and> isword (s ! (i - 1))) \<noteq> (i < length s \<and> isword (s ! i)))"

definition step_char :: "(char \<Rightarrow> bool) \<Rightarrow> string \<Rightarrow> nat list \<Rightarrow> nat list" where
  "step_char P s ps = map Suc (filter (\<lambda>i. i < length s \<and> P (s ! i)) ps)"

fun closure :: "nat \<Rightarrow> (nat list \<Rightarrow> nat list) \<Rightarrow> nat list \<Rightarrow> nat list" where
  "closure 0 f ps = ps"
| "closure (Suc n) f ps = remdups (ps @ closure n f (f ps))"

text \<open>
  \<open>ends r s ps\<close> lists the positions at which a match of \<open>r\<close> can end when it starts
  at one of the positions \<open>ps\<close> of \<open>s\<close>. A match never moves backwards, so a repetition
  reaches every end position within \<open>length s\<close> rounds.
\<close>

primrec ends :: "rx \<Rightarrow> string \<Rightarrow> nat list \<Rightarrow> nat list" where
  "ends (Lit c) s ps = step_char (\<lambda>x. x = c) s ps"
| "ends (OneOf cs) s ps = step_char (\<lambda>x. x \<in> set cs) s ps"
| "ends Space s ps = step_char isspace s ps"
| "ends Dot s ps = step_char (\<lambda>x. x \<noteq> CHR ''\<newline>'') s ps"
| "ends WordB s ps = filter (word_boundary s) ps"
| "ends Eps s ps = ps"
| "ends (Seq a b) s ps = ends b s (ends a s ps)"
| "ends (Alt a b) s ps = remdups (ends a s ps @ ends b s ps)"
| "ends (Star a) s ps = closure (length s) (ends a s) ps"

text \<open>\<^verbatim>\<open>re.search(pattern, s)\<close> is not \<^verbatim>\<open>None\<close>: a match starts somewhere in \<open>s\<close>.\<close>

definition search :: "rx \<Rightarrow> string \<Rightarrow> bool" where
  "search r s = (ends r s [0..<Suc (length s)] \<noteq> [])"
section \<open>Exceptions\<close>

text \<open>An exception is a value: its class and the text \<^verbatim>\<open>str(exc)\<close> gives. A result of
  type \<open>exn + 'a\<close> is \<open>Inl\<close> when the call raised.\<close>

datatype exc_class =
    ValueError | KeyError | TypeError | AttributeError | RuntimeError
  | OSError | FileExistsError | FileNotFoundError | NotADirectoryError
  | IsADirectoryError | PermissionError | UnicodeDecodeError | TimeoutExpired

datatype exn = Exn exc_class string

fun exn_class :: "exn \<Rightarrow> exc_class" where
  "exn_class (Exn c m) = c"

fun exn_str :: "exn \<Rightarrow> string" where
  "exn_str (Exn c m) = m"

section \<open>Values read from JSON\<close>

text \<open>What \<^verbatim>\<open>json.loads\<close> returns: \<^verbatim>\<open>None\<close>, a bool, an int, a str, a list or a
  dict with string keys (in insertion order). Floats are not modelled.\<close>

datatype json =
    JNull
  | JBool bool
  | JInt int
  | JStr string
  | JArr "json list"
  | JObj "(string \<times> json) list"

text \<open>Truth value, \<^verbatim>\<open>len\<close>, iteration and \<^verbatim>\<open>v[key]\<close> with a string key, as
  Python defines them on these values.\<close>

fun truthy :: "json \<Rightarrow> bool" where
  "truthy JNull = False"
| "truthy (JBool b) = b"
| "truthy (JInt i) = (i \<noteq> 0)"
| "truthy (JStr s) = (s \<noteq> [])"
| "truthy (JArr xs) = (xs \<noteq> [])"
| "truthy (JObj kvs) = (kvs \<noteq> [])"

fun type_name :: "json \<Rightarrow> string" where
  "type_name JNull = ''NoneType''"
| "type_name (JBool b) = ''bool''"
| "type_name (JInt i) = ''int''"
| "type_name (JStr s) = ''str''"
| "type_name (JArr xs) = ''list''"
| "type_name (JObj kvs) = ''dict''"

definition quoted :: "string \<Rightarrow> string" where
  "quoted s = [CHR 0x27] @ s @ [CHR 0x27]"

fun py_len :: "json \<Rightarrow> exn + nat" where
  "py_len (JStr s) = Inr (length s)"
| "py_len (JArr xs) = Inr (length xs)"
| "py_len (JObj kvs) = Inr (length kvs)"
| "py_len v = Inl (Exn TypeError (''object of type '' @ quoted (type_name v) @ '' has no len()''))"

fun py_iter :: "json \<Rightarrow> exn + json list" where
  "py_iter (JStr s) = Inr (map (\<lambda>c. JStr [c]) s)"
| "py_iter (JArr xs) = Inr xs"
| "py_iter (JObj kvs) = Inr (map (\<lambda>kv. JStr (fst kv)) kvs)"
| "py_iter v = Inl (Exn TypeError (quoted (type_name v) @ '' object is not iterable''))"

fun getitem :: "json \<Rightarrow> string \<Rightarrow> exn + json" where
  "getitem (JObj kvs) k =
     (case map_of kvs k of Some v \<Rightarrow> Inr v | None \<Rightarrow> Inl (Exn KeyError (quoted k)))"
| "getitem (JArr xs) k =
     Inl (Exn TypeError ''list indices must be integers or slices, not str'')"
| "getitem (JStr s) k =
     Inl (Exn TypeError (''string indices must be integers, not '' @ quoted ''str''))"
| "getitem v k = Inl (Exn TypeError (quoted (type_name v) @ '' object is not subscriptable''))"

section \<open>The world outside the program\<close>

text \<open>
  A resolved absolute path is the list of its components below the root (POSIX). The
  file system maps paths to nodes: a directory, a regular file holding UTF-8 text (kept
  as the decoded text), or a regular file whose bytes are not UTF-8. The list order of
  \<open>nodes\<close> stands for the order in which the system enumerates a directory.
\<close>

type_synonym path = "string list"

datatype node = Dir | File string | Blob

datatype io_op = Reading | Writing | MakingDir

text \<open>
  \<open>refusal\<close>: for each operation and path, the error with which the operating system
  refuses it (permissions, a failing device), if it does. \<open>procs\<close>: the command lines
  handed to a shell so far. \<open>clock\<close>: what
  \<^verbatim>\<open>datetime.now().isoformat(timespec="seconds")\<close> returns. \<open>drawn\<close>: how many
  UUIDs have been generated.
\<close>

record world =
  nodes :: "(path \<times> node) list"
  refusal :: "io_op \<Rightarrow> path \<Rightarrow> exn option"
  procs :: "string list"
  clock :: string
  drawn :: nat

text \<open>
  The process environment and the library functions that are taken as given.
  \<open>workspace\<close> is the value of \<^verbatim>\<open>_workspace()\<close>, for a workspace setting that
  resolves. \<^verbatim>\<open>_resolve_path\<close> (tilde expansion, joining under the workspace and
  canonicalisation by \<^verbatim>\<open>pathlib\<close>) is given by two fields: \<open>resolve_raises\<close> is the
  exception it raises for a string, if it raises (\<^verbatim>\<open>RuntimeError\<close> for the home of an
  unknown user, \<^verbatim>\<open>ValueError\<close> for an embedded null character), and
  \<open>resolve_path\<close> is the path it returns otherwise. \<open>json_dumps indent\<close> is
  \<^verbatim>\<open>json.dumps(_, ensure_ascii=False, indent=indent)\<close>, \<open>json_loads\<close> is
  \<^verbatim>\<open>json.loads\<close> (\<open>None\<close> when it raises), \<open>py_str\<close> is \<^verbatim>\<open>str\<close> on a loaded
  value, and \<open>uuid4_hex n\<close> is the \<open>hex\<close> of the \<open>n\<close>-th UUID generated.
\<close>

record env =
  workspace :: path
  resolve_raises :: "string \<Rightarrow> exn option"
  resolve_path :: "string \<Rightarrow> path"
  json_dumps :: "nat option \<Rightarrow> json \<Rightarrow> string"
  json_loads :: "string \<Rightarrow> json option"
  py_str :: "json \<Rightarrow> string"
  uuid4_hex :: "nat \<Rightarrow> string"

text \<open>An effectful call returns its result, or the exception it raised, and the world
  it leaves behind.\<close>

type_synonym 'a io = "(exn + 'a) \<times> world"

text \<open>A call of \<^verbatim>\<open>_resolve_path\<close>.\<close>

definition try_resolve_path :: "env \<Rightarrow> string \<Rightarrow> exn + path" where
  "try_resolve_path e p =
     (case resolve_raises e p of Some exc \<Rightarrow> Inl exc | None \<Rightarrow> Inr (resolve_path e p))"

definition path_str :: "path \<Rightarrow> string" where
  "path_str p = (if p = [] then ''/'' else concat (map (\<lambda>c. ''/'' @ c) p))"

definition parent :: "path \<Rightarrow> path" where
  "parent p = butlast p"

definition os_error :: "exc_class \<Rightarrow> string \<Rightarrow> path \<Rightarrow> exn" where
  "os_error c what p = Exn c (what @ '': '' @ quoted (path_str p))"

definition node_at :: "world \<Rightarrow> path \<Rightarrow> node option" where
  "node_at w p = (if p = [] then Some Dir else map_of (nodes w) p)"

definition exists :: "world \<Rightarrow> path \<Rightarrow> bool" where
  "exists w p = (node_at w p \<noteq> None)"

definition is_dir :: "world \<Rightarrow> path \<Rightarrow> bool" where
  "is_dir w p = (node_at w p = Some Dir)"

definition is_file :: "world \<Rightarrow> path \<Rightarrow> bool" where
  "is_file w p = (case node_at w p of Some (File t) \<Rightarrow> True | Some Blob \<Rightarrow> True | _ \<Rightarrow> False)"

definition put_node :: "world \<Rightarrow> path \<Rightarrow> node \<Rightarrow> world" where
  "put_node w p n = w\<lparr>nodes := AList.update p n (nodes w)\<rparr>"

text \<open>Reading in text mode translates every line ending (CR LF, or CR alone) to a
  line feed.\<close>

fun universal_newlines :: "string \<Rightarrow> string" where
  "universal_newlines [] = []"
| "universal_newlines [c] = (if c = CHR 0x0D then [CHR ''\<newline>''] else [c])"
| "universal_newlines (c # d # cs) =
     (if c = CHR 0x0D
      then (if d = CHR ''\<newline>'' then CHR ''\<newline>'' # universal_newlines cs
            else CHR ''\<newline>'' # universal_newlines (d # cs))
      else c # universal_newlines (d # cs))"

text \<open>\<^verbatim>\<open>Path.read_text(encoding="utf-8")\<close>.\<close>

definition read_text :: "world \<Rightarrow> path \<Rightarrow> exn + string" where
  "read_text w p =
     (case refusal w Reading p of
        Some x \<Rightarrow> Inl x
      | None \<Rightarrow>
          (case node_at w p of
             None \<Rightarrow> Inl (os_error FileNotFoundError ''[Errno 2] No such file or directory'' p)
           | Some Dir \<Rightarrow> Inl (os_error IsADirectoryError ''[Errno 21] Is a directory'' p)
           | Some Blob \<Rightarrow> Inl (Exn UnicodeDecodeError ''utf-8 codec cannot decode the file'')
           | Some (File t) \<Rightarrow> Inr (universal_newlines t)))"

text \<open>Opening a path for writing: what stands in the way, if anything.\<close>

definition open_error :: "world \<Rightarrow> path \<Rightarrow> exn option" where
  "open_error w p =
     (case refusal w Writing p of
        Some x \<Rightarrow> Some x
      | None \<Rightarrow>
          if is_dir w p then Some (os_error IsADirectoryError ''[Errno 21] Is a directory'' p)
          else if is_dir w (parent p) then None
          else if exists w (parent p)
          then Some (os_error NotADirectoryError ''[Errno 20] Not a directory'' p)
          else Some (os_error FileNotFoundError ''[Errno 2] No such file or directory'' p))"

text \<open>\<^verbatim>\<open>Path.write_text(s, encoding="utf-8")\<close>: the file is replaced by \<open>s\<close>. Every
  string of the model can be encoded, and a line feed is written as it is (POSIX).\<close>

definition write_text :: "world \<Rightarrow> path \<Rightarrow> string \<Rightarrow> unit io" where
  "write_text w p s =
     (case open_error w p of
        Some x \<Rightarrow> (Inl x, w)
      | None \<Rightarrow> (Inr (), put_node w p (File s)))"

text \<open>Opening in mode \<^verbatim>\<open>"a"\<close> and writing \<open>s\<close>: the text is added at the end.\<close>

definition append_text :: "world \<Rightarrow> path \<Rightarrow> string \<Rightarrow> unit io" where
  "append_text w p s =
     (case open_error w p of
        Some x \<Rightarrow> (Inl x, w)
      | None \<Rightarrow>
          (Inr (), put_node w p
             (case node_at w p of Some (File t) \<Rightarrow> File (t @ s) | Some Blob \<Rightarrow> Blob | _ \<Rightarrow> File s)))"

text \<open>\<^verbatim>\<open>Path.mkdir(parents=True, exist_ok=True)\<close>: fails when the path or one of its
  ancestors is a file; otherwise every missing directory on the way is created.\<close>

definition mkdir_parents :: "world \<Rightarrow> path \<Rightarrow> unit io" where
  "mkdir_parents w d =
     (case refusal w MakingDir d of
        Some x \<Rightarrow> (Inl x, w)
      | None \<Rightarrow>
          (case find (\<lambda>q. exists w q \<and> \<not> is_dir w q) (prefixes d) of
             Some q \<Rightarrow>
               (Inl (if q = d then os_error FileExistsError ''[Errno 17] File exists'' d
                     else os_error NotADirectoryError ''[Errno 20] Not a directory'' d), w)
           | None \<Rightarrow>
               (Inr (), foldl (\<lambda>v q. if exists v q then v else put_node v q Dir) w (prefixes d))))"

text \<open>\<^verbatim>\<open>Path.iterdir()\<close>, consumed as a whole: the children of a directory.\<close>

definition iterdir :: "world \<Rightarrow> path \<Rightarrow> exn + path list" where
  "iterdir w d =
     (case refusal w Reading d of
        Some x \<Rightarrow> Inl x
      | None \<Rightarrow> Inr (remdups (filter (\<lambda>p. p \<noteq> [] \<and> butlast p = d) (map fst (nodes w)))))"

text \<open>
  \<^verbatim>\<open>subprocess.run(cmd, shell=True, cwd=..., capture_output=True, text=True,
  timeout=...)\<close>. What the shell does with a command is a parameter \<open>sh\<close> of the model:
  it returns the completed process or the exception raised, and the world the command
  leaves behind. Every call is recorded in \<open>procs\<close>.
\<close>

record completed =
  stdout :: string
  stderr :: string
  returncode :: int

type_synonym shell = "world \<Rightarrow> string \<Rightarrow> path \<Rightarrow> int \<Rightarrow> completed io"

definition subprocess_run :: "shell \<Rightarrow> world \<Rightarrow> string \<Rightarrow> path \<Rightarrow> int \<Rightarrow> completed io" where
  "subprocess_run sh w cmd cwd timeout =
     (case sh (w\<lparr>procs := procs w @ [cmd]\<rparr>) cmd cwd timeout of (r, w') \<Rightarrow> (r, w'))"
section \<open>File tools\<close>


definition write_file :: "env \<Rightarrow> world \<Rightarrow> string \<Rightarrow> string \<Rightarrow> string \<times> world" where
  "write_file e w p content =
     (case try_resolve_path e p of
        Inl exc \<Rightarrow> (''Error writing file: '' @ exn_str exc, w)
      | Inr target \<Rightarrow>
          (case mkdir_parents w (parent target) of
             (Inl exc, w1) \<Rightarrow> (''Error writing file: '' @ exn_str exc, w1)
           | (Inr u, w1) \<Rightarrow>
               (case write_text w1 target content of
                  (Inl exc, w2) \<Rightarrow> (''Error writing file: '' @ exn_str exc, w2)
                | (Inr u', w2) \<Rightarrow>
                    (''Successfully wrote '' @ str_nat (length content) @ '' bytes to ''
                       @ path_str target, w2))))"


text \<open>The number of bytes of the UTF-8 encoding of a string: one byte for a code point
  below U+0080, two for the others of the model.\<close>

definition utf8_length :: "string \<Rightarrow> nat" where
  "utf8_length s = sum_list (map (\<lambda>c. if cp c < 128 then 1 else 2) s)"

section \<open>Shell commands\<close>

definition DENY_PATTERNS :: "rx list" where
  "DENY_PATTERNS =
   [ Seqs [WordB, Str ''rm'', Plus Space, Lit CHR ''-'', Rep12 (OneOf ''rf''), WordB],
     Seqs [WordB, Str ''del'', Plus Space, Lit CHR ''/'', OneOf ''fq'', WordB],
     Seqs [WordB, Str ''rmdir'', Plus Space, Str ''/s'', WordB],
     Seqs [WordB, Alt (Str ''format'') (Alt (Str ''mkfs'') (Str ''diskpart'')), WordB],
     Seqs [WordB, Str ''dd'', Plus Space, Str ''if=''],
     Seqs [Lit CHR ''>'', Star Space, Str ''/dev/sd''],
     Seqs [WordB, Alt (Str ''shutdown'') (Alt (Str ''reboot'') (Str ''poweroff'')), WordB],
     Seqs [Str '':()'', Star Space, Lit CHR ''{'', Star Dot, Str ''};'', Star Space, Lit CHR '':''] ]"

definition blocked_message :: string where
  "blocked_message = ''Error: Command blocked by safety guard (dangerous pattern detected)''"

text \<open>The loop over the deny patterns: some pattern is found in the lower-cased command.\<close>

definition denied :: "string \<Rightarrow> bool" where
  "denied lowered = list_ex (\<lambda>pattern. search pattern lowered) DENY_PATTERNS"

text \<open>The text assembled from a completed process.\<close>

definition render_output :: "completed \<Rightarrow> string" where
  "render_output c =
     (let parts = (if stdout c \<noteq> [] then [stdout c] else [])
                  @ (if stderr c \<noteq> [] then [''STDERR:'' @ [CHR ''\<newline>''] @ stderr c] else [])
                  @ (if returncode c \<noteq> 0 then [''Exit code: '' @ str_int (returncode c)] else []);
          joined = strip (join [CHR ''\<newline>''] parts);
          result = (if joined \<noteq> [] then joined else ''(no output)'');
          max_len = 12000
      in if length result > max_len
         then take max_len result @ [CHR ''\<newline>''] @ ''... (truncated, ''
                @ str_nat (length result - max_len) @ '' more chars)''
         else result)"

text \<open>The directory the command runs in: the resolved \<^verbatim>\<open>working_dir\<close> when one is
  given and not empty, the workspace otherwise. Resolving it can raise.\<close>

definition exec_cwd :: "env \<Rightarrow> string option \<Rightarrow> exn + path" where
  "exec_cwd e working_dir =
     (case working_dir of
        None \<Rightarrow> Inr (workspace e)
      | Some d \<Rightarrow> if d \<noteq> [] then try_resolve_path e d else Inr (workspace e))"

text \<open>The working directory is resolved after the guard and before the \<^verbatim>\<open>try\<close>
  block, so what resolving raises reaches the caller.\<close>

definition exec_command ::
  "shell \<Rightarrow> env \<Rightarrow> world \<Rightarrow> string \<Rightarrow> string option \<Rightarrow> int \<Rightarrow> string io" where
  "exec_command sh e w command working_dir timeout =
     (let cmd = strip command; lowered = lower cmd in
      if denied lowered then (Inr blocked_message, w)
      else
        (case exec_cwd e working_dir of
           Inl exc \<Rightarrow> (Inl exc, w)
         | Inr cwd \<Rightarrow>
             (case subprocess_run sh w cmd cwd timeout of
                (Inl exc, w1) \<Rightarrow>
                  (Inr (if exn_class exc = TimeoutExpired
                        then ''Error: Command timed out after '' @ str_int timeout @ '' seconds''
                        else ''Error executing command: '' @ exn_str exc), w1)
              | (Inr c, w1) \<Rightarrow> (Inr (render_output c), w1))))"

section \<open>The outbox\<close>

definition message :: "env \<Rightarrow> world \<Rightarrow> string \<Rightarrow> string \<Rightarrow> string \<Rightarrow> string io" where
  "message e w content channel chat_id =
     (let outbox = workspace e @ [''messages'', ''outbox.log''] in
      case mkdir_parents w (parent outbox) of
        (Inl exc, w1) \<Rightarrow> (Inl exc, w1)
      | (Inr u, w1) \<Rightarrow>
          (let ts = clock w1;
               line = json_dumps e None
                 (JObj [(''timestamp'', JStr ts), (''channel'', JStr channel),
                        (''chat_id'', JStr chat_id), (''content'', JStr content)])
           in case append_text w1 outbox (line @ [CHR ''\<newline>'']) of
                (Inl exc, w2) \<Rightarrow> (Inl exc, w2)
              | (Inr u', w2) \<Rightarrow> (Inr (''Message recorded to '' @ path_str outbox), w2)))"
section \<open>The cron job store\<close>

definition cron_store_path :: "env \<Rightarrow> path" where
  "cron_store_path e = workspace e @ [''.picobot'', ''cron_jobs.json'']"

text \<open>An absent, unreadable or unparsable store file counts as the empty list. Whatever
  else the file parses to is returned as it is.\<close>

definition load_cron_jobs :: "env \<Rightarrow> world \<Rightarrow> json" where
  "load_cron_jobs e w =
     (let p = cron_store_path e in
      if \<not> exists w p then JArr []
      else (case read_text w p of
              Inl exc \<Rightarrow> JArr []
            | Inr t \<Rightarrow> (case json_loads e t of None \<Rightarrow> JArr [] | Some v \<Rightarrow> v)))"

definition save_cron_jobs :: "env \<Rightarrow> world \<Rightarrow> json \<Rightarrow> unit io" where
  "save_cron_jobs e w jobs =
     (let p = cron_store_path e in
      case mkdir_parents w (parent p) of
        (Inl exc, w1) \<Rightarrow> (Inl exc, w1)
      | (Inr u, w1) \<Rightarrow> write_text w1 p (json_dumps e (Some 2) jobs))"

text \<open>The loop of the \<^verbatim>\<open>list\<close> action: one line for each job.\<close>

fun list_lines :: "env \<Rightarrow> json list \<Rightarrow> exn + string list" where
  "list_lines e [] = Inr []"
| "list_lines e (j # js) =
     (case getitem j ''name'' of
        Inl exc \<Rightarrow> Inl exc
      | Inr nm \<Rightarrow>
     (case getitem j ''id'' of
        Inl exc \<Rightarrow> Inl exc
      | Inr ident \<Rightarrow>
     (case getitem j ''schedule'' of
        Inl exc \<Rightarrow> Inl exc
      | Inr sched \<Rightarrow>
     (case list_lines e js of
        Inl exc \<Rightarrow> Inl exc
      | Inr ls \<Rightarrow>
          Inr ((''- '' @ py_str e nm @ '' (id: '' @ py_str e ident @ '', '' @ py_str e sched
                 @ '')'') # ls)))))"

text \<open>The comprehension of the \<^verbatim>\<open>remove\<close> action: the jobs whose \<^verbatim>\<open>id\<close> differs
  from \<open>job_id\<close>.\<close>

fun keep_others :: "string \<Rightarrow> json list \<Rightarrow> exn + json list" where
  "keep_others job_id [] = Inr []"
| "keep_others job_id (j # js) =
     (case getitem j ''id'' of
        Inl exc \<Rightarrow> Inl exc
      | Inr ident \<Rightarrow>
          (case keep_others job_id js of
             Inl exc \<Rightarrow> Inl exc
           | Inr rest \<Rightarrow> Inr (if ident \<noteq> JStr job_id then j # rest else rest)))"

definition missing_schedule :: string where
  "missing_schedule = ''Error: either every_seconds, cron_expr, or at is required''"

text \<open>The schedule of a new job, or nothing when no specifier is truthy.\<close>

definition schedule_of :: "int option \<Rightarrow> string option \<Rightarrow> string option \<Rightarrow> string option" where
  "schedule_of every_seconds cron_expr at =
     (if every_seconds \<noteq> None \<and> every_seconds \<noteq> Some 0
      then Some (''every:'' @ str_int (the every_seconds) @ ''s'')
      else if cron_expr \<noteq> None \<and> cron_expr \<noteq> Some []
      then Some (''cron:'' @ the cron_expr)
      else if at \<noteq> None \<and> at \<noteq> Some []
      then Some (''at:'' @ the at)
      else None)"

definition cron ::
  "env \<Rightarrow> world \<Rightarrow> string \<Rightarrow> string \<Rightarrow> int option \<Rightarrow> string option \<Rightarrow> string option
     \<Rightarrow> string option \<Rightarrow> string io" where
  "cron e w action msg every_seconds cron_expr at job_id =
     (let jobs = load_cron_jobs e w in
      if action = ''list'' then
        (if \<not> truthy jobs then (Inr ''No scheduled jobs.'', w)
         else (case py_iter jobs of
                 Inl exc \<Rightarrow> (Inl exc, w)
               | Inr js \<Rightarrow>
                   (case list_lines e js of
                      Inl exc \<Rightarrow> (Inl exc, w)
                    | Inr ls \<Rightarrow> (Inr (join [CHR ''\<newline>''] (''Scheduled jobs:'' # ls)), w))))
      else if action = ''remove'' then
        (case job_id of
           None \<Rightarrow> (Inr ''Error: job_id is required for remove'', w)
         | Some k \<Rightarrow>
             if k = [] then (Inr ''Error: job_id is required for remove'', w)
             else (case py_len jobs of
                     Inl exc \<Rightarrow> (Inl exc, w)
                   | Inr before \<Rightarrow>
                  (case py_iter jobs of
                     Inl exc \<Rightarrow> (Inl exc, w)
                   | Inr js \<Rightarrow>
                  (case keep_others k js of
                     Inl exc \<Rightarrow> (Inl exc, w)
                   | Inr kept \<Rightarrow>
                       if length kept = before then (Inr (''Job '' @ k @ '' not found''), w)
                       else (case save_cron_jobs e w (JArr kept) of
                               (Inl exc, w1) \<Rightarrow> (Inl exc, w1)
                             | (Inr u, w1) \<Rightarrow> (Inr (''Removed job '' @ k), w1))))))
      else if action = ''add'' then
        (if msg = [] then (Inr ''Error: message is required for add'', w)
         else (case schedule_of every_seconds cron_expr at of
                 None \<Rightarrow> (Inr missing_schedule, w)
               | Some schedule \<Rightarrow>
                   (let ident = take 8 (uuid4_hex e (drawn w));
                        w1 = w\<lparr>drawn := Suc (drawn w)\<rparr>;
                        new_job = JObj [(''id'', JStr ident), (''name'', JStr (take 30 msg)),
                                        (''message'', JStr msg), (''schedule'', JStr schedule),
                                        (''created_at'', JStr (clock w1))]
                    in case jobs of
                         JArr js \<Rightarrow>
                           (case save_cron_jobs e w1 (JArr (js @ [new_job])) of
                              (Inl exc, w2) \<Rightarrow> (Inl exc, w2)
                            | (Inr u, w2) \<Rightarrow>
                                (Inr (''Created job '' @ quoted (take 30 msg) @ '' (id: '' @ ident
                                        @ '')''), w2))
                       | other \<Rightarrow>
                           (Inl (Exn AttributeError
                                  (quoted (type_name other)
                                     @ '' object has no attribute '' @ quoted ''append'')), w1))))
      else (Inr (''Unknown action: '' @ action), w))"
section \<open>The skill registry\<close>

record SkillInfo =
  name :: string
  path :: path
  source :: string
  description :: string

record SkillRegistry =
  registry_workspace :: path
  workspace_skills_dir :: path
  builtin_skills_dir :: path

text \<open>The constructor, from the two resolved directories.\<close>

definition new_registry :: "path \<Rightarrow> path \<Rightarrow> SkillRegistry" where
  "new_registry ws builtin =
     \<lparr>registry_workspace = ws, workspace_skills_dir = ws @ [''skills''],
      builtin_skills_dir = builtin\<rparr>"

text \<open>\<^verbatim>\<open>s.split(sep)\<close> for a separator of one character, and the index of the first
  occurrence of a substring.\<close>

fun split_on :: "char \<Rightarrow> string \<Rightarrow> string list" where
  "split_on sep [] = [[]]"
| "split_on sep (c # cs) =
     (case split_on sep cs of
        [] \<Rightarrow> [[c]]
      | x # xs \<Rightarrow> if c = sep then [] # x # xs else (c # x) # xs)"

fun find_sub :: "string \<Rightarrow> string \<Rightarrow> nat option" where
  "find_sub sub [] = (if sub = [] then Some 0 else None)"
| "find_sub sub (c # cs) =
     (if prefix sub (c # cs) then Some 0 else map_option Suc (find_sub sub cs))"

text \<open>
  \<^verbatim>\<open>re.match(r"^---\n(.*?)\n---", content, re.DOTALL)\<close>: the content starts with three
  dashes and a newline, and group 1 is what stands between them and the first later
  newline followed by three dashes.
\<close>

definition front_matter :: "string \<Rightarrow> string option" where
  "front_matter content =
     (if prefix (''---'' @ [CHR ''\<newline>'']) content
      then (case find_sub ([CHR ''\<newline>''] @ ''---'') (drop 4 content) of
              None \<Rightarrow> None
            | Some i \<Rightarrow> Some (take i (drop 4 content)))
      else None)"

text \<open>The loop over the lines of the front matter.\<close>

fun description_line :: "string list \<Rightarrow> string option" where
  "description_line [] = None"
| "description_line (line # lines) =
     (if \<not> prefix ''description:'' (strip line) then description_line lines
      else Some (strip_chars [CHR 0x22, CHR 0x27]
                   (strip (drop 1 (dropWhile (\<lambda>c. c \<noteq> CHR '':'') line)))))"

definition extract_description :: "world \<Rightarrow> path \<Rightarrow> exn + string option" where
  "extract_description w skill_file =
     (case read_text w skill_file of
        Inl exc \<Rightarrow> Inl exc
      | Inr content \<Rightarrow>
          Inr (if \<not> prefix ''---'' content then None
               else (case front_matter content of
                       None \<Rightarrow> None
                     | Some block \<Rightarrow> description_line (split_on CHR ''\<newline>'' block))))"

text \<open>The loop of \<^verbatim>\<open>_scan\<close> over the children of a skills directory.\<close>

fun scan_children :: "world \<Rightarrow> string \<Rightarrow> path list \<Rightarrow> exn + SkillInfo list" where
  "scan_children w src [] = Inr []"
| "scan_children w src (child # rest) =
     (if \<not> is_dir w child then scan_children w src rest
      else
        (let skill_file = child @ [''SKILL.md''] in
         if \<not> is_file w skill_file then scan_children w src rest
         else (case extract_description w skill_file of
                 Inl exc \<Rightarrow> Inl exc
               | Inr d \<Rightarrow>
                   (case scan_children w src rest of
                      Inl exc \<Rightarrow> Inl exc
                    | Inr result \<Rightarrow>
                        Inr (\<lparr>name = last child, path = skill_file, source = src,
                              description =
                                (case d of
                                   None \<Rightarrow> last child
                                 | Some t \<Rightarrow> if t \<noteq> [] then t else last child)\<rparr>
                             # result)))))"

definition scan :: "world \<Rightarrow> path \<Rightarrow> string \<Rightarrow> exn + SkillInfo list" where
  "scan w skills_dir src =
     (if \<not> exists w skills_dir \<or> \<not> is_dir w skills_dir then Inr []
      else (case iterdir w skills_dir of
              Inl exc \<Rightarrow> Inl exc
            | Inr children \<Rightarrow> scan_children w src children))"

text \<open>
  The dictionary \<^verbatim>\<open>discovered\<close> is an association list in insertion order:
  assigning to a key that is present replaces its value in place, assigning to a new key
  appends.
\<close>

definition add_workspace :: "(string \<times> SkillInfo) list \<Rightarrow> SkillInfo \<Rightarrow> (string \<times> SkillInfo) list" where
  "add_workspace discovered info = AList.update (name info) info discovered"

definition add_builtin :: "(string \<times> SkillInfo) list \<Rightarrow> SkillInfo \<Rightarrow> (string \<times> SkillInfo) list" where
  "add_builtin discovered info =
     (if map_of discovered (name info) = None
      then AList.update (name info) info discovered
      else discovered)"

definition merge_skills :: "SkillInfo list \<Rightarrow> SkillInfo list \<Rightarrow> SkillInfo list" where
  "merge_skills ws bs =
     (let discovered = foldl add_builtin (foldl add_workspace [] ws) bs
      in sort_key (\<lambda>item. lower (name item)) (map snd discovered))"

definition list_skills :: "SkillRegistry \<Rightarrow> world \<Rightarrow> exn + SkillInfo list" where
  "list_skills reg w =
     (case scan w (workspace_skills_dir reg) ''workspace'' of
        Inl exc \<Rightarrow> Inl exc
      | Inr ws \<Rightarrow>
          (case scan w (builtin_skills_dir reg) ''builtin'' of
             Inl exc \<Rightarrow> Inl exc
           | Inr bs \<Rightarrow> Inr (merge_skills ws bs)))"

definition read_skill :: "SkillRegistry \<Rightarrow> world \<Rightarrow> string \<Rightarrow> exn + string" where
  "read_skill reg w nm =
     (let key = strip nm in
      if key = [] then Inl (Exn ValueError ''Skill name cannot be empty.'')
      else (case list_skills reg w of
              Inl exc \<Rightarrow> Inl exc
            | Inr items \<Rightarrow>
                (case find (\<lambda>info. name info = key) items of
                   Some info \<Rightarrow> read_text w (path info)
                 | None \<Rightarrow> Inl (Exn ValueError (''Skill '' @ quoted key @ '' not found.'')))))"



definition xml_escape :: "string \<Rightarrow> string" where
  "xml_escape t =
     replace (replace (replace t ''&'' ''&amp;'' (- 1)) ''<'' ''&lt;'' (- 1)) ''>'' ''&gt;'' (- 1)"

text \<open>The escaping as the specification words it: character by character.\<close>

definition escape_char :: "char \<Rightarrow> string" where
  "escape_char c =
     (if c = CHR ''&'' then ''&amp;''
      else if c = CHR ''<'' then ''&lt;''
      else if c = CHR ''>'' then ''&gt;''
      else [c])"

definition xml_escape_spec :: "string \<Rightarrow> string" where
  "xml_escape_spec t = concat (map escape_char t)"

text \<open>The lines that \<^verbatim>\<open>build_summary\<close> appends for one skill.\<close>

definition skill_block :: "SkillInfo \<Rightarrow> string list" where
  "skill_block info =
     [''  <skill>'',
      ''    <name>'' @ xml_escape (name info) @ ''</name>'',
      ''    <description>'' @ xml_escape (description info) @ ''</description>'',
      ''    <source>'' @ source info @ ''</source>'',
      ''    <location>'' @ xml_escape (path_str (path info)) @ ''</location>'',
      ''  </skill>'']"

definition build_summary :: "SkillRegistry \<Rightarrow> world \<Rightarrow> exn + string" where
  "build_summary reg w =
     (case list_skills reg w of
        Inl exc \<Rightarrow> Inl exc
      | Inr items \<Rightarrow>
          Inr (join [CHR ''\<newline>'']
                 ([''<skills>''] @ concat (map skill_block items) @ [''</skills>''])))"
section \<open>Example worlds\<close>

text \<open>
  A small environment and file systems on which the definitions are run. The workspace
  is \<^verbatim>\<open>/ws\<close> and a relative path of one component resolves to a child of it; there
  is no user \<^verbatim>\<open>nouser_zz\<close>, so resolving \<^verbatim>\<open>~nouser_zz\<close> raises. The
  stand-ins for \<^verbatim>\<open>json.dumps\<close> and \<^verbatim>\<open>json.loads\<close> agree with the library on the
  values the examples store: the empty list, and a list of one job.
\<close>

definition demo_job :: json where
  "demo_job = JObj [(''id'', JStr ''0a1b2c3d''), (''name'', JStr ''remind me''),
                    (''message'', JStr ''remind me''), (''schedule'', JStr ''every:30s''),
                    (''created_at'', JStr ''2026-01-01T09:00:00'')]"

definition demo_store_text :: string where
  "demo_store_text = join [CHR ''\<newline>'']
     [''['',
      ''  {'',
      ''    '' @ [CHR 0x22] @ ''id'' @ [CHR 0x22] @ '': '' @ [CHR 0x22] @ ''0a1b2c3d'' @ [CHR 0x22] @ '','',
      ''    '' @ [CHR 0x22] @ ''name'' @ [CHR 0x22] @ '': '' @ [CHR 0x22] @ ''remind me'' @ [CHR 0x22] @ '','',
      ''    '' @ [CHR 0x22] @ ''message'' @ [CHR 0x22] @ '': '' @ [CHR 0x22] @ ''remind me'' @ [CHR 0x22] @ '','',
      ''    '' @ [CHR 0x22] @ ''schedule'' @ [CHR 0x22] @ '': '' @ [CHR 0x22] @ ''every:30s'' @ [CHR 0x22] @ '','',
      ''    '' @ [CHR 0x22] @ ''created_at'' @ [CHR 0x22] @ '': '' @ [CHR 0x22] @ ''2026-01-01T09:00:00'' @ [CHR 0x22],
      ''  }'',
      '']'']"

definition demo_dumps :: "nat option \<Rightarrow> json \<Rightarrow> string" where
  "demo_dumps indent v =
     (if v = JArr [] then ''[]''
      else if v = JArr [demo_job] \<and> indent = Some 2 then demo_store_text
      else ''{}'')"

definition demo_loads :: "string \<Rightarrow> json option" where
  "demo_loads t =
     (if t = ''[]'' then Some (JArr [])
      else if t = demo_store_text then Some (JArr [demo_job])
      else None)"

definition demo_str :: "json \<Rightarrow> string" where
  "demo_str v = (case v of JStr s \<Rightarrow> s | _ \<Rightarrow> type_name v)"

definition demo_env :: env where
  "demo_env =
     \<lparr>workspace = [''ws''],
      resolve_raises = (\<lambda>p. if p = ''~nouser_zz''
                            then Some (Exn RuntimeError ''Could not determine home directory.'')
                            else None),
      resolve_path = (\<lambda>p. [''ws'', p]), json_dumps = demo_dumps,
      json_loads = demo_loads, py_str = demo_str,
      uuid4_hex = (\<lambda>n. ''0a1b2c3d4e5f60718293a4b5c6d7e8f9'')\<rparr>"

text \<open>Worlds in which the operating system refuses nothing.\<close>

definition world_of :: "(path \<times> node) list \<Rightarrow> world" where
  "world_of ns =
     \<lparr>nodes = ns, refusal = (\<lambda>operation p. None), procs = [], clock = ''2026-01-01T09:00:00'',
      drawn = 0\<rparr>"

definition empty_world :: world where
  "empty_world = world_of [([''ws''], Dir)]"

text \<open>A shell that knows one command: \<^verbatim>\<open>echo\<close> prints its arguments and a newline
  and touches nothing.\<close>

definition echo_shell :: shell where
  "echo_shell w cmd cwd timeout =
     (Inr \<lparr>stdout = drop 5 cmd @ [CHR ''\<newline>''], stderr = [], returncode = 0\<rparr>, w)"

text \<open>A workspace in which \<^verbatim>\<open>messages\<close> is a regular file.\<close>

definition outbox_blocked_world :: world where
  "outbox_blocked_world = world_of [([''ws''], Dir), ([''ws'', ''messages''], File ''notes'')]"



text \<open>A workspace whose cron store holds one job.\<close>

definition cron_world :: world where
  "cron_world = world_of
     [([''ws''], Dir), ([''ws'', ''.picobot''], Dir),
      ([''ws'', ''.picobot'', ''cron_jobs.json''], File demo_store_text)]"

text \<open>
  A workspace with its own skill \<^verbatim>\<open>general\<close>, beside a builtin skills directory
  \<^verbatim>\<open>/pkg/skills\<close> that has \<^verbatim>\<open>general\<close> and \<^verbatim>\<open>coding\<close>.
\<close>

definition custom_manifest :: string where
  "custom_manifest = join [CHR ''\<newline>'']
     [''---'', ''name: general'', ''description: custom general'', ''---'', '''',
      ''# Custom General'', '''']"

definition builtin_manifest :: string where
  "builtin_manifest = join [CHR ''\<newline>'']
     [''---'', ''name: general'', ''description: general help'', ''---'', '''', ''# General'', '''']"

definition coding_manifest :: string where
  "coding_manifest = ''# Coding'' @ [CHR ''\<newline>'']"

definition skills_world :: world where
  "skills_world = world_of
     [([''ws''], Dir), ([''ws'', ''skills''], Dir), ([''ws'', ''skills'', ''general''], Dir),
      ([''ws'', ''skills'', ''general'', ''SKILL.md''], File custom_manifest),
      ([''pkg''], Dir), ([''pkg'', ''skills''], Dir),
      ([''pkg'', ''skills'', ''general''], Dir),
      ([''pkg'', ''skills'', ''general'', ''SKILL.md''], File builtin_manifest),
      ([''pkg'', ''skills'', ''coding''], Dir),
      ([''pkg'', ''skills'', ''coding'', ''SKILL.md''], File coding_manifest)]"

definition demo_registry :: SkillRegistry where
  "demo_registry = new_registry [''ws''] [''pkg'', ''skills'']"





text \<open>The world of \<open>skills_world\<close> after the manifest of the builtin skill
  \<^verbatim>\<open>coding\<close> has been overwritten with bytes that are not UTF-8.\<close>

definition broken_skills_world :: world where
  "broken_skills_world =
     put_node skills_world [''pkg'', ''skills'', ''coding'', ''SKILL.md''] Blob"

text \<open>An environment in which the store file parses to a number, and the world of
  \<open>cron_world\<close> when the operating system refuses every write.\<close>

definition number_env :: env where
  "number_env = demo_env\<lparr>json_loads := (\<lambda>t. Some (JInt 7))\<rparr>"

definition readonly_cron_world :: world where
  "readonly_cron_world =
     cron_world\<lparr>refusal := (\<lambda>operation p.
        if operation = Writing
        then Some (os_error PermissionError ''[Errno 13] Permission denied'' p)
        else None)\<rparr>"

section \<open>Notions used in the statements\<close>


text \<open>An association list that can stand for the dictionary of discovered skills: the
  keys are distinct and every skill is stored under its name.\<close>

definition keyed_by_name :: "(string \<times> SkillInfo) list \<Rightarrow> bool" where
  "keyed_by_name d = (distinct (map fst d) \<and> list_all (\<lambda>kv. name (snd kv) = fst kv) d)"

section \<open>Facts about the file system model\<close>





lemma universal_newlines_id: "CHR 0x0D \<notin> set c \<Longrightarrow> universal_newlines c = c"
  by (induction c rule: universal_newlines.induct) auto

lemma write_text_Inr:
  "write_text w p s = (Inr u, w') \<Longrightarrow> open_error w p = None \<and> w' = put_node w p (File s)"
  by (auto simp: write_text_def split: option.splits)





section \<open>Properties of the skill summary\<close>

lemma replace_from_char:
  "n < 0 \<Longrightarrow> replace_from [c] new n s = concat (map (\<lambda>x. if x = c then new else [x]) s)"
  by (induction s arbitrary: n) auto

lemma replace_char:
  "replace s [c] new (- 1) = concat (map (\<lambda>x. if x = c then new else [x]) s)"
  by (simp add: replace_def replace_from_char)

lemma xml_escape_eq_spec: "xml_escape s = xml_escape_spec s"
  unfolding xml_escape_def xml_escape_spec_def replace_char
  by (induction s) (auto simp: escape_char_def)

text \<open>
  Claim C9. In \<^verbatim>\<open>build_summary\<close> the name, the description and the location of a
  skill are escaped by replacing exactly the characters \<^verbatim>\<open>&\<close>, \<^verbatim>\<open><\<close> and \<^verbatim>\<open>>\<close>
  with \<^verbatim>\<open>&amp;\<close>, \<^verbatim>\<open>&lt;\<close> and \<^verbatim>\<open>&gt;\<close>; every other character, a quote
  included, stays as it is. The three chained calls of \<^verbatim>\<open>str.replace\<close> compute the
  character-wise escaping, and the summary is built from it.
\<close>

theorem build_summary_escapes_exactly_amp_lt_gt:
  "xml_escape t = xml_escape_spec t
   \<and> skill_block info =
       [''  <skill>'',
        ''    <name>'' @ xml_escape_spec (name info) @ ''</name>'',
        ''    <description>'' @ xml_escape_spec (description info) @ ''</description>'',
        ''    <source>'' @ source info @ ''</source>'',
        ''    <location>'' @ xml_escape_spec (path_str (path info)) @ ''</location>'',
        ''  </skill>'']
   \<and> build_summary reg w =
       (case list_skills reg w of
          Inl exc \<Rightarrow> Inl exc
        | Inr items \<Rightarrow>
            Inr (join [CHR ''\<newline>'']
                   ([''<skills>''] @ concat (map skill_block items) @ [''</skills>''])))"
  by (simp add: xml_escape_eq_spec skill_block_def build_summary_def)

text \<open>An example: the ampersand and the angle brackets are escaped, the double quote and
  the apostrophe are not.\<close>

lemma xml_escape_example:
  "xml_escape (''A&B<C> '' @ [CHR 0x22, CHR 0x27])
     = ''A&amp;B&lt;C&gt; '' @ [CHR 0x22, CHR 0x27]"
  by (simp add: xml_escape_eq_spec xml_escape_spec_def escape_char_def)

section \<open>Properties of the cron store\<close>












text \<open>
  Outside the amended claim: \<^verbatim>\<open>cron\<close> catches nothing. A store file that parses to
  something other than a list of jobs with ids makes \<^verbatim>\<open>remove\<close> raise, and so does a
  save that the operating system refuses.
\<close>

lemma cron_remove_raises_on_number_store:
  "cron number_env cron_world ''remove'' [] None None None (Some ''0a1b2c3d'')
     = (Inl (Exn TypeError (''object of type '' @ quoted ''int'' @ '' has no len()'')), cron_world)"
proof -
  have u: "universal_newlines demo_store_text = demo_store_text"
    by (rule universal_newlines_id) (simp add: demo_store_text_def)
  have "load_cron_jobs number_env cron_world = JInt 7"
    by (simp add: load_cron_jobs_def cron_store_path_def number_env_def demo_env_def
          cron_world_def world_of_def exists_def node_at_def read_text_def u Let_def)
  then show ?thesis
    by (simp add: cron_def Let_def)
qed

lemma cron_remove_raises_on_refused_save:
  "cron demo_env readonly_cron_world ''remove'' [] None None None (Some ''0a1b2c3d'')
     = (Inl (os_error PermissionError ''[Errno 13] Permission denied''
               [''ws'', ''.picobot'', ''cron_jobs.json'']), readonly_cron_world)"
proof -
  have u: "universal_newlines demo_store_text = demo_store_text"
    by (rule universal_newlines_id) (simp add: demo_store_text_def)
  have l: "load_cron_jobs demo_env readonly_cron_world = JArr [demo_job]"
    by (simp add: load_cron_jobs_def cron_store_path_def demo_env_def readonly_cron_world_def
          cron_world_def world_of_def exists_def node_at_def read_text_def u demo_loads_def Let_def)
       (simp add: demo_store_text_def)
  have s: "save_cron_jobs demo_env readonly_cron_world (JArr [])
      = (Inl (os_error PermissionError ''[Errno 13] Permission denied''
                [''ws'', ''.picobot'', ''cron_jobs.json'']), readonly_cron_world)"
    by (simp add: save_cron_jobs_def cron_store_path_def demo_env_def readonly_cron_world_def
          cron_world_def world_of_def mkdir_parents_def parent_def exists_def is_dir_def
          node_at_def write_text_def open_error_def Let_def)
  show ?thesis
    using l s by (simp add: cron_def Let_def demo_job_def)
qed

section \<open>Properties of the shell tool\<close>








lemma not_denied_echo: "\<not> denied (lower (strip ''echo hello''))"
  by code_simp






text \<open>
  The working directory is resolved outside the \<^verbatim>\<open>try\<close> block: when resolving it
  raises, a command that passes the guard is not run, and the exception reaches the
  caller.
\<close>

lemma exec_command_raises_for_unresolvable_working_dir:
  "exec_command echo_shell demo_env empty_world ''echo hello'' (Some ''~nouser_zz'') 60
     = (Inl (Exn RuntimeError ''Could not determine home directory.''), empty_world)"
  using not_denied_echo
  by (simp add: exec_command_def exec_cwd_def try_resolve_path_def demo_env_def Let_def)

section \<open>Properties of the file tools\<close>




text \<open>\<^verbatim>\<open>str.count\<close> does not count overlapping occurrences.\<close>

lemma count_is_non_overlapping: "count ''banana'' ''ana'' = 1 \<and> count ''banana'' ''na'' = 2"
  by (simp add: count_def)








text \<open>
  Claim C8. A successful \<^verbatim>\<open>write_file\<close> names the destination, but the number it
  reports as bytes is \<^verbatim>\<open>len(content)\<close>, the number of code points. For the
  one-character content U+00E9 the message says \<^verbatim>\<open>1 bytes\<close> while the UTF-8 text
  written has two bytes.
\<close>

theorem write_file_reports_code_points_as_bytes:
  "write_file demo_env empty_world ''demo.txt'' [CHR 0xE9]
     = (''Successfully wrote 1 bytes to /ws/demo.txt'',
        world_of [([''ws''], Dir), ([''ws'', ''demo.txt''], File [CHR 0xE9])])
   \<and> length [CHR 0xE9] = 1
   \<and> utf8_length [CHR 0xE9] = 2"
  by (simp add: write_file_def try_resolve_path_def demo_env_def empty_world_def world_of_def
      mkdir_parents_def parent_def exists_def is_dir_def node_at_def write_text_def
      open_error_def put_node_def str_nat.simps digit_def path_str_def Let_def utf8_length_def
      cp_def)

section \<open>Properties of the outbox\<close>

text \<open>
  Claim C6. \<^verbatim>\<open>message\<close> does not catch what the file system raises. In a workspace
  where \<^verbatim>\<open>messages\<close> is a regular file, creating the parent directory of the outbox
  fails and the call raises \<^verbatim>\<open>FileExistsError\<close> instead of returning a string; in
  the same world \<^verbatim>\<open>write_file\<close> below that path returns an error string.
\<close>

theorem message_raises_when_outbox_directory_is_a_file:
  "message demo_env outbox_blocked_world ''hi'' ''local'' ''default''
     = (Inl (os_error FileExistsError ''[Errno 17] File exists'' [''ws'', ''messages'']),
        outbox_blocked_world)
   \<and> write_file (demo_env\<lparr>resolve_path := (\<lambda>p. [''ws'', ''messages'', p])\<rparr>)
        outbox_blocked_world ''outbox.log'' ''hi''
     = (''Error writing file: [Errno 17] File exists: '' @ quoted ''/ws/messages'',
        outbox_blocked_world)"
  by (simp add: message_def write_file_def try_resolve_path_def demo_env_def
      outbox_blocked_world_def world_of_def
      mkdir_parents_def parent_def exists_def is_dir_def node_at_def Let_def os_error_def
      path_str_def)


section \<open>Properties of the skill registry\<close>

lemma extract_description_reads:
  "extract_description w f = Inr d \<Longrightarrow> \<exists>t. read_text w f = Inr t"
  by (auto simp: extract_description_def split: sum.splits)

lemma scan_children_sound:
  "scan_children w src cs = Inr r \<Longrightarrow> i \<in> set r \<Longrightarrow>
   source i = src \<and> (\<exists>t. read_text w (path i) = Inr t)"
proof (induction cs arbitrary: r)
  case Nil
  then show ?case by simp
next
  case (Cons child rest)
  show ?case
  proof (cases "is_dir w child \<and> is_file w (child @ [''SKILL.md''])")
    case False
    then have "scan_children w src rest = Inr r"
      using Cons.prems(1) by (auto simp: Let_def split: if_splits)
    then show ?thesis
      using Cons.IH Cons.prems(2) by blast
  next
    case True
    then obtain d r' where d: "extract_description w (child @ [''SKILL.md'']) = Inr d"
      and r': "scan_children w src rest = Inr r'"
      and r: "r = \<lparr>name = last child, path = child @ [''SKILL.md''], source = src,
                  description = (case d of None \<Rightarrow> last child
                                 | Some t \<Rightarrow> if t \<noteq> [] then t else last child)\<rparr> # r'"
      using Cons.prems(1) by (auto simp: Let_def split: sum.splits)
    show ?thesis
    proof (cases "i \<in> set r'")
      case True
      then show ?thesis
        using Cons.IH [OF r'] by blast
    next
      case False
      then show ?thesis
        using Cons.prems(2) r extract_description_reads [OF d] by auto
    qed
  qed
qed

lemma scan_children_complete:
  "scan_children w src cs = Inr r \<Longrightarrow> child \<in> set cs \<Longrightarrow> is_dir w child \<Longrightarrow>
   is_file w (child @ [''SKILL.md'']) \<Longrightarrow> last child \<in> name ` set r"
proof (induction cs arbitrary: r)
  case Nil
  then show ?case by simp
next
  case (Cons c rest)
  then show ?case
    by (auto simp: Let_def split: if_splits sum.splits)
qed

lemma scan_sound:
  "scan w d src = Inr r \<Longrightarrow> i \<in> set r \<Longrightarrow>
   source i = src \<and> (\<exists>t. read_text w (path i) = Inr t)"
  by (auto simp: scan_def split: if_splits sum.splits dest: scan_children_sound)

lemma scan_complete:
  assumes "scan w d src = Inr r"
    and "is_dir w d" and "is_dir w (d @ [n])" and "is_file w (d @ [n, ''SKILL.md''])"
  shows "n \<in> name ` set r"
proof -
  have "map_of (nodes w) (d @ [n]) = Some Dir"
    using assms(3) by (simp add: is_dir_def node_at_def)
  then have "d @ [n] \<in> fst ` set (nodes w)"
    by (metis map_of_SomeD fst_conv image_eqI)
  then have inlist: "d @ [n] \<in> set (remdups (filter (\<lambda>p. p \<noteq> [] \<and> butlast p = d) (map fst (nodes w))))"
    by simp
  obtain children where c: "iterdir w d = Inr children" "scan_children w src children = Inr r"
    using assms(1,2) by (auto simp: scan_def exists_def is_dir_def split: sum.splits)
  then have "d @ [n] \<in> set children"
    using inlist by (force simp: iterdir_def split: option.splits)
  then have "last (d @ [n]) \<in> name ` set r"
    using scan_children_complete [OF c(2), of "d @ [n]"] assms(3,4) by simp
  then show ?thesis by simp
qed

lemma set_update_cases: "kv \<in> set (AList.update k v d) \<Longrightarrow> kv = (k, v) \<or> kv \<in> set d"
  by (induction d) (auto split: if_splits)

lemma keyed_by_name_update:
  "keyed_by_name d \<Longrightarrow> keyed_by_name (AList.update (name i) i d)"
  unfolding keyed_by_name_def list_all_iff
  by (auto simp: distinct_update dest!: set_update_cases)

lemma keyed_by_name_empty: "keyed_by_name []"
  by (simp add: keyed_by_name_def)

lemma map_of_add_workspace:
  "map_of (add_workspace d i) n = (if name i = n then Some i else map_of d n)"
  by (simp add: add_workspace_def update_conv')

lemma keyed_by_name_workspace: "keyed_by_name d \<Longrightarrow> keyed_by_name (foldl add_workspace d ws)"
  by (induction ws arbitrary: d) (simp_all add: add_workspace_def keyed_by_name_update)

lemma keyed_by_name_builtin: "keyed_by_name d \<Longrightarrow> keyed_by_name (foldl add_builtin d bs)"
  by (induction bs arbitrary: d) (simp_all add: add_builtin_def keyed_by_name_update)

lemma workspace_entry:
  "n \<in> name ` set ws \<Longrightarrow> \<exists>i\<in>set ws. name i = n \<and> map_of (foldl add_workspace d ws) n = Some i"
proof (induction ws arbitrary: d rule: rev_induct)
  case Nil
  then show ?case by simp
next
  case (snoc x xs)
  show ?case
  proof (cases "name x = n")
    case True
    then show ?thesis
      by (simp add: map_of_add_workspace)
  next
    case False
    then have "n \<in> name ` set xs"
      using snoc.prems by auto
    then obtain i where "i \<in> set xs" "name i = n" "map_of (foldl add_workspace d xs) n = Some i"
      using snoc.IH by blast
    then show ?thesis
      using False by (auto simp: map_of_add_workspace)
  qed
qed

lemma add_builtin_keeps_entry:
  "map_of d n = Some i \<Longrightarrow> map_of (add_builtin d b) n = Some i"
  by (auto simp: add_builtin_def update_conv')

lemma builtin_keeps_entry:
  "map_of d n = Some i \<Longrightarrow> map_of (foldl add_builtin d bs) n = Some i"
  by (induction bs arbitrary: d) (simp_all add: add_builtin_keeps_entry)

lemma builtin_entry_origin:
  "map_of (foldl add_builtin d bs) n = Some i \<Longrightarrow> map_of d n = Some i \<or> i \<in> set bs"
proof (induction bs arbitrary: d)
  case Nil
  then show ?case by simp
next
  case (Cons b bs)
  then have "map_of (add_builtin d b) n = Some i \<or> i \<in> set bs"
    by simp
  then show ?case
    by (auto simp: add_builtin_def update_conv' split: if_splits)
qed

lemma workspace_entry_origin:
  "map_of (foldl add_workspace d ws) n = Some i \<Longrightarrow> map_of d n = Some i \<or> i \<in> set ws"
proof (induction ws arbitrary: d)
  case Nil
  then show ?case by simp
next
  case (Cons b bs)
  then have "map_of (add_workspace d b) n = Some i \<or> i \<in> set bs"
    by simp
  then show ?case
    by (auto simp: map_of_add_workspace split: if_splits)
qed

lemma keyed_by_name_filter:
  "keyed_by_name d \<Longrightarrow> map_of d n = Some i \<Longrightarrow> filter (\<lambda>x. name x = n) (map snd d) = [i]"
proof (induction d)
  case Nil
  then show ?case by simp
next
  case (Cons kv d)
  obtain k v where kv: "kv = (k, v)" by (cases kv)
  have kd: "keyed_by_name d" and nk: "name v = k" and fresh: "k \<notin> fst ` set d"
    using Cons.prems(1) by (auto simp: keyed_by_name_def kv)
  show ?case
  proof (cases "k = n")
    case True
    have "\<forall>x\<in>set (map snd d). name x \<noteq> n"
      using kd fresh True by (fastforce simp: keyed_by_name_def list_all_iff)
    then have "filter (\<lambda>x. name x = n) (map snd d) = []"
      by (simp add: filter_empty_conv)
    then show ?thesis
      using True nk Cons.prems(2) by (simp add: kv)
  next
    case False
    then show ?thesis
      using Cons.IH [OF kd] Cons.prems(2) nk by (simp add: kv)
  qed
qed

lemma keyed_by_name_values:
  "keyed_by_name d \<Longrightarrow> i \<in> set (map snd d) \<Longrightarrow> map_of d (name i) = Some i"
  by (auto simp: keyed_by_name_def list_all_iff)

lemma merge_skills_filter:
  assumes "n \<in> name ` set ws"
  shows "\<exists>i\<in>set ws. filter (\<lambda>x. name x = n) (merge_skills ws bs) = [i]"
proof -
  let ?d = "foldl add_builtin (foldl add_workspace [] ws) bs"
  obtain i where i: "i \<in> set ws" "map_of (foldl add_workspace [] ws) n = Some i"
    using workspace_entry [OF assms] by blast
  have m: "map_of ?d n = Some i"
    using builtin_keeps_entry [OF i(2)] .
  have k: "keyed_by_name ?d"
    using keyed_by_name_builtin keyed_by_name_workspace keyed_by_name_empty by blast
  have "filter (\<lambda>x. name x = n) (merge_skills ws bs)
          = sort_key (\<lambda>item. lower (name item)) (filter (\<lambda>x. name x = n) (map snd ?d))"
    by (simp add: merge_skills_def Let_def filter_sort)
  then show ?thesis
    using keyed_by_name_filter [OF k m] i(1) by auto
qed

lemma merge_skills_origin:
  assumes "i \<in> set (merge_skills ws bs)"
  shows "i \<in> set ws \<or> i \<in> set bs"
proof -
  let ?d = "foldl add_builtin (foldl add_workspace [] ws) bs"
  have k: "keyed_by_name ?d"
    using keyed_by_name_builtin keyed_by_name_workspace keyed_by_name_empty by blast
  have "i \<in> set (map snd ?d)"
    using assms by (simp add: merge_skills_def Let_def)
  then have "map_of ?d (name i) = Some i"
    using keyed_by_name_values [OF k] by blast
  then show ?thesis
    using builtin_entry_origin workspace_entry_origin by fastforce
qed

text \<open>
  Whenever \<^verbatim>\<open>list_skills\<close> returns, a name that is a skill bundle of the workspace
  skills directory (a subdirectory holding a file \<^verbatim>\<open>SKILL.md\<close>) occurs in the result
  exactly once, and the entry of that name has the source \<^verbatim>\<open>workspace\<close>, whether or
  not the builtin directory has a bundle of the same name.
\<close>

lemma workspace_bundle_listed_once:
  assumes "list_skills reg w = Inr items"
    and "is_dir w (workspace_skills_dir reg)"
    and "is_dir w (workspace_skills_dir reg @ [n])"
    and "is_file w (workspace_skills_dir reg @ [n, ''SKILL.md''])"
  shows "\<exists>info. filter (\<lambda>item. name item = n) items = [info] \<and> source info = ''workspace''"
proof -
  obtain ws bs where ws: "scan w (workspace_skills_dir reg) ''workspace'' = Inr ws"
    and bs: "scan w (builtin_skills_dir reg) ''builtin'' = Inr bs"
    and items: "items = merge_skills ws bs"
    using assms(1) by (auto simp: list_skills_def split: sum.splits)
  have "n \<in> name ` set ws"
    using scan_complete [OF ws assms(2-4)] .
  then obtain i where "i \<in> set ws" "filter (\<lambda>x. name x = n) (merge_skills ws bs) = [i]"
    using merge_skills_filter by blast
  then show ?thesis
    using scan_sound [OF ws] items by auto
qed

lemma skills_world_listing:
  "list_skills demo_registry skills_world = Inr
     [\<lparr>name = ''coding'', path = [''pkg'', ''skills'', ''coding'', ''SKILL.md''],
       source = ''builtin'', description = ''coding''\<rparr>,
      \<lparr>name = ''general'', path = [''ws'', ''skills'', ''general'', ''SKILL.md''],
       source = ''workspace'', description = ''custom general''\<rparr>]"
  by code_simp

text \<open>
  Claim C3. The manifests are read without a guard while the directories are scanned. In
  a world where \<^verbatim>\<open>general\<close> is a skill bundle of both the workspace and the builtin
  directory, \<^verbatim>\<open>list_skills\<close> returns one entry \<^verbatim>\<open>general\<close> with the source
  \<^verbatim>\<open>workspace\<close> as long as every manifest can be decoded; once the manifest of
  another builtin skill holds bytes that are not UTF-8, \<^verbatim>\<open>list_skills\<close> raises
  \<^verbatim>\<open>UnicodeDecodeError\<close> and returns no entry at all.
\<close>

theorem list_skills_raises_on_undecodable_manifest:
  "is_file broken_skills_world [''ws'', ''skills'', ''general'', ''SKILL.md'']
   \<and> is_file broken_skills_world [''pkg'', ''skills'', ''general'', ''SKILL.md'']
   \<and> is_file broken_skills_world [''pkg'', ''skills'', ''coding'', ''SKILL.md'']
   \<and> list_skills demo_registry broken_skills_world
     = Inl (Exn UnicodeDecodeError ''utf-8 codec cannot decode the file'')
   \<and> list_skills demo_registry skills_world = Inr
     [\<lparr>name = ''coding'', path = [''pkg'', ''skills'', ''coding'', ''SKILL.md''],
       source = ''builtin'', description = ''coding''\<rparr>,
      \<lparr>name = ''general'', path = [''ws'', ''skills'', ''general'', ''SKILL.md''],
       source = ''workspace'', description = ''custom general''\<rparr>]"
proof -
  have f: "is_file broken_skills_world [''ws'', ''skills'', ''general'', ''SKILL.md'']"
    "is_file broken_skills_world [''pkg'', ''skills'', ''general'', ''SKILL.md'']"
    "is_file broken_skills_world [''pkg'', ''skills'', ''coding'', ''SKILL.md'']"
    by (simp_all add: broken_skills_world_def put_node_def skills_world_def world_of_def
          is_file_def node_at_def)
  have r: "list_skills demo_registry broken_skills_world
     = Inl (Exn UnicodeDecodeError ''utf-8 codec cannot decode the file'')"
    by code_simp
  show ?thesis
    using f r skills_world_listing by blast
qed

lemma merge_skills_readable:
  assumes "scan w d1 s1 = Inr ws" and "scan w d2 s2 = Inr bs" and "i \<in> set (merge_skills ws bs)"
  shows "\<exists>t. read_text w (path i) = Inr t"
  using merge_skills_origin [OF assms(3)] scan_sound [OF assms(1)] scan_sound [OF assms(2)]
  by blast

text \<open>
  Claim C5, amended. The name is stripped of surrounding whitespace before anything else.
  Whenever \<^verbatim>\<open>list_skills\<close> returns: \<^verbatim>\<open>read_skill\<close> raises the empty-name value
  error when the stripped name is empty, and the not-found value error when it is not
  empty and no listed skill has exactly the stripped name; otherwise it returns the text
  of the manifest of a listed skill with that name. So it raises a value error if and only
  if the stripped name is empty or matches no listed skill.
\<close>

theorem read_skill_by_stripped_name:
  assumes "list_skills reg w = Inr items"
  shows "(strip nm = [] \<longrightarrow>
            read_skill reg w nm = Inl (Exn ValueError ''Skill name cannot be empty.''))
       \<and> (strip nm \<noteq> [] \<and> strip nm \<notin> name ` set items \<longrightarrow>
            read_skill reg w nm
              = Inl (Exn ValueError (''Skill '' @ quoted (strip nm) @ '' not found.'')))
       \<and> (strip nm \<noteq> [] \<and> strip nm \<in> name ` set items \<longrightarrow>
            (\<exists>info t. info \<in> set items \<and> name info = strip nm
                \<and> read_text w (path info) = Inr t \<and> read_skill reg w nm = Inr t))
       \<and> ((\<exists>m. read_skill reg w nm = Inl (Exn ValueError m))
            \<longleftrightarrow> strip nm = [] \<or> strip nm \<notin> name ` set items)"
proof -
  have empty: "strip nm = [] \<longrightarrow>
      read_skill reg w nm = Inl (Exn ValueError ''Skill name cannot be empty.'')"
    by (simp add: read_skill_def Let_def)
  have missing: "strip nm \<noteq> [] \<and> strip nm \<notin> name ` set items \<longrightarrow>
      read_skill reg w nm = Inl (Exn ValueError (''Skill '' @ quoted (strip nm) @ '' not found.''))"
  proof
    assume a: "strip nm \<noteq> [] \<and> strip nm \<notin> name ` set items"
    then have "\<forall>x\<in>set items. name x \<noteq> strip nm"
      by (metis imageI)
    then have "find (\<lambda>info. name info = strip nm) items = None"
      by (simp add: find_None_iff)
    then show "read_skill reg w nm
        = Inl (Exn ValueError (''Skill '' @ quoted (strip nm) @ '' not found.''))"
      using a assms by (simp add: read_skill_def Let_def)
  qed
  have found: "strip nm \<noteq> [] \<and> strip nm \<in> name ` set items \<longrightarrow>
      (\<exists>info t. info \<in> set items \<and> name info = strip nm
          \<and> read_text w (path info) = Inr t \<and> read_skill reg w nm = Inr t)"
  proof
    assume a: "strip nm \<noteq> [] \<and> strip nm \<in> name ` set items"
    then obtain info where i: "find (\<lambda>info. name info = strip nm) items = Some info"
      by (cases "find (\<lambda>info. name info = strip nm) items") (auto simp: find_None_iff)
    then have mem: "info \<in> set items" and nm: "name info = strip nm"
      by (auto simp: find_Some_iff)
    obtain ws bs where "scan w (workspace_skills_dir reg) ''workspace'' = Inr ws"
      and "scan w (builtin_skills_dir reg) ''builtin'' = Inr bs"
      and "items = merge_skills ws bs"
      using assms by (auto simp: list_skills_def split: sum.splits)
    then obtain t where t: "read_text w (path info) = Inr t"
      using merge_skills_readable mem by blast
    have "read_skill reg w nm = Inr t"
      using a assms i t by (simp add: read_skill_def Let_def)
    then show "\<exists>info t. info \<in> set items \<and> name info = strip nm
          \<and> read_text w (path info) = Inr t \<and> read_skill reg w nm = Inr t"
      using mem nm t by blast
  qed
  show ?thesis
    using empty missing found by auto
qed

theorem read_skill_by_stripped_name_witness:
  "read_skill demo_registry skills_world ''  ''
     = Inl (Exn ValueError ''Skill name cannot be empty.'')
   \<and> read_skill demo_registry skills_world ''General''
     = Inl (Exn ValueError (''Skill '' @ quoted ''General'' @ '' not found.''))
   \<and> (\<exists>(info::SkillInfo) t.
         name info = ''general'' \<and> read_text skills_world (path info) = Inr t
         \<and> read_skill demo_registry skills_world ''general'' = Inr t)"
proof -
  have s: "strip ''  '' = []" "strip ''General'' = ''General''" "strip ''general'' = ''general''"
    by (simp_all add: strip_def lstrip_def rstrip_def isspace_def cp_def)
  have a: "read_skill demo_registry skills_world ''  ''
      = Inl (Exn ValueError ''Skill name cannot be empty.'')"
    using read_skill_by_stripped_name [OF skills_world_listing, of "''  ''"]
    unfolding s by simp
  have b: "read_skill demo_registry skills_world ''General''
      = Inl (Exn ValueError (''Skill '' @ quoted ''General'' @ '' not found.''))"
    using read_skill_by_stripped_name [OF skills_world_listing, of "''General''"]
    unfolding s by simp
  have c: "\<exists>(info::SkillInfo) t.
         name info = ''general'' \<and> read_text skills_world (path info) = Inr t
         \<and> read_skill demo_registry skills_world ''general'' = Inr t"
  proof -
    let ?items = "[\<lparr>name = ''coding'', path = [''pkg'', ''skills'', ''coding'', ''SKILL.md''],
                     source = ''builtin'', description = ''coding''\<rparr>,
                   \<lparr>name = ''general'', path = [''ws'', ''skills'', ''general'', ''SKILL.md''],
                     source = ''workspace'', description = ''custom general''\<rparr>]"
    have h: "strip ''general'' \<noteq> [] \<and> strip ''general'' \<in> name ` set ?items"
      unfolding s by simp
    have "\<exists>info t. info \<in> set ?items \<and> name info = strip ''general''
            \<and> read_text skills_world (path info) = Inr t
            \<and> read_skill demo_registry skills_world ''general'' = Inr t"
      using read_skill_by_stripped_name
              [OF skills_world_listing, of "''general''", THEN conjunct2, THEN conjunct2,
               THEN conjunct1] h
      by (rule mp)
    then obtain info :: SkillInfo and t where "name info = strip ''general''"
      and "read_text skills_world (path info) = Inr t"
      and "read_skill demo_registry skills_world ''general'' = Inr t"
      by blast
    then show ?thesis
      unfolding s by blast
  qed
  show ?thesis
    using a b c by blast
qed

text \<open>
  The claim as stated compares the name itself: for the name \<^verbatim>\<open>" general "\<close> no listed
  skill is an exact match and the name is not blank, yet the manifest of \<^verbatim>\<open>general\<close>
  is returned.
\<close>

theorem read_skill_exact_match_counterexample:
  "map name
     [\<lparr>name = ''coding'', path = [''pkg'', ''skills'', ''coding'', ''SKILL.md''],
       source = ''builtin'', description = ''coding''\<rparr>,
      \<lparr>name = ''general'', path = [''ws'', ''skills'', ''general'', ''SKILL.md''],
       source = ''workspace'', description = ''custom general''\<rparr>] = [''coding'', ''general'']
   \<and> list_skills demo_registry skills_world = Inr
     [\<lparr>name = ''coding'', path = [''pkg'', ''skills'', ''coding'', ''SKILL.md''],
       source = ''builtin'', description = ''coding''\<rparr>,
      \<lparr>name = ''general'', path = [''ws'', ''skills'', ''general'', ''SKILL.md''],
       source = ''workspace'', description = ''custom general''\<rparr>]
   \<and> '' general '' \<noteq> ''coding'' \<and> '' general '' \<noteq> ''general''
   \<and> read_skill demo_registry skills_world '' general '' = Inr custom_manifest"
proof -
  have "read_skill demo_registry skills_world '' general '' = Inr custom_manifest"
    by code_simp
  then show ?thesis
    using skills_world_listing by simp
qed

end
